theory Spec2Isabelle
  imports Main
begin

section \<open>Python values\<close>

text \<open>
  Both services handle untyped values read from JSON, so a variable such as
  \<open>tenant_id\<close> may hold any JSON value. A Python \<open>str\<close> is a list of characters,
  one \<open>char\<close> per code point (code points below 256); \<open>bytes\<close> are written the
  same way. A dict lists each of its keys once. Number literals with a fraction or an
  exponent are left out.
\<close>

datatype json =
    JNull
  | JBool bool
  | JInt int
  | JStr string
  | JList "json list"
  | JDict "(string \<times> json) list"

text \<open>
  Exceptions are values. The interpreter and the libraries raise a \<open>libexn\<close>:
  \<open>JSONDecodeError\<close> is the one the handlers name, every other is \<open>Error\<close> with
  the name of its class. The handlers themselves raise \<open>HTTPException\<close>, which carries
  its status code and its detail. The detail \<open>Str e\<close> stands for the text \<open>str(e)\<close>,
  which the Worker puts into its 500 answer.
\<close>

datatype libexn = JSONDecodeError | Error string

datatype exn =
    HTTPException nat detail
  | Lib libexn
and detail =
    Detail string
  | Str exn

text \<open>Truth value testing, as \<open>not x\<close> and \<open>if x\<close> use it.\<close>

fun truthy :: "json \<Rightarrow> bool" where
  "truthy JNull = False"
| "truthy (JBool b) = b"
| "truthy (JInt i) = (i \<noteq> 0)"
| "truthy (JStr s) = (s \<noteq> [])"
| "truthy (JList xs) = (xs \<noteq> [])"
| "truthy (JDict kvs) = (kvs \<noteq> [])"

text \<open>\<open>data.get(key, default)\<close>: only a dict has the method.\<close>

fun dict_get :: "json \<Rightarrow> string \<Rightarrow> json \<Rightarrow> exn + json" where
  "dict_get (JDict kvs) k d = Inr (case map_of kvs k of None \<Rightarrow> d | Some v \<Rightarrow> v)"
| "dict_get _ k d = Inl (Lib (Error ''AttributeError''))"

definition startswith :: "string \<Rightarrow> string \<Rightarrow> bool" where
  "startswith s p = (take (length p) s = p)"

text \<open>\<open>p in s\<close> on two strings: \<open>p\<close> occurs in \<open>s\<close> as a contiguous piece.\<close>

fun substring_in :: "string \<Rightarrow> string \<Rightarrow> bool" where
  "substring_in p [] = (p = [])"
| "substring_in p (c # cs) = (if startswith (c # cs) p then True else substring_in p cs)"

text \<open>\<open>str.isspace\<close> on the code points below 256, and \<open>str.strip()\<close>.\<close>

definition isspace :: "char \<Rightarrow> bool" where
  "isspace c = (of_char c \<in> {9, 10, 11, 12, 13, 28, 29, 30, 31, 32, 133, 160 :: nat})"

definition strip :: "string \<Rightarrow> string" where
  "strip s = rev (dropWhile isspace (rev (dropWhile isspace s)))"

fun str_strip :: "json \<Rightarrow> exn + string" where
  "str_strip (JStr s) = Inr (strip s)"
| "str_strip _ = Inl (Lib (Error ''AttributeError''))"

section \<open>The library and the outside world\<close>

text \<open>
  The parsers and decoders of the standard library are parameters of the model: each maps
  its argument to a result or to the exception it raises.
  \<open>json_loads\<close> is \<open>json.loads\<close> on bytes (what \<open>await request.json()\<close> calls),
  \<open>utf8_decode\<close> is \<open>bytes.decode("utf-8")\<close>, \<open>b64decode\<close> is \<open>base64.b64decode\<close> on a
  \<open>str\<close>.
\<close>

record pylib =
  json_loads :: "string \<Rightarrow> libexn + json"
  utf8_decode :: "string \<Rightarrow> libexn + string"
  b64decode :: "string \<Rightarrow> libexn + string"

text \<open>
  An HTTP request as the handlers read it: the \<open>Content-Type\<close> header, the
  \<open>X-Tenant-ID\<close> header, and the body bytes.
\<close>

record request =
  content_type :: "string option"
  x_tenant_id :: "string option"
  body :: string

text \<open>
  What a handler hands back to FastAPI is either a raised exception or the returned value;
  both handlers return a tuple of a dict and an integer.
\<close>

type_synonym 'a outcome = "exn + 'a \<times> int"

text \<open>
  FastAPI turns the outcome into the HTTP response. An \<open>HTTPException\<close> gives its own
  status code and detail, any other exception the server's 500. Both routes are declared
  without a \<open>status_code\<close> (\<open>@app.post("/ingest")\<close>, \<open>@app.post("/process")\<close>), so a
  returned value is answered with status 200 and is serialised as it is: the tuple becomes
  a two-element JSON array, written \<open>Array v code\<close>.
\<close>

datatype 'a content = Array 'a int | ErrorDetail detail | InternalServerError

record 'a response =
  status :: nat
  content :: "'a content"

definition respond :: "'a outcome \<Rightarrow> 'a response" where
  "respond r =
     (case r of
        Inr (v, code) \<Rightarrow> \<lparr>status = 200, content = Array v code\<rparr>
      | Inl (HTTPException s d) \<Rightarrow> \<lparr>status = s, content = ErrorDetail d\<rparr>
      | Inl _ \<Rightarrow> \<lparr>status = 500, content = InternalServerError\<rparr>)"

section \<open>Ingestion Gateway (api/main.py)\<close>

text \<open>
  A publisher client maps a topic path and a message to the message id that
  \<open>future.result()\<close> returns, or to the exception it raises. The message is handed
  over as \<open>json.dumps(message)\<close>; the model keeps the dict itself.
\<close>

type_synonym publisher = "string \<Rightarrow> json \<Rightarrow> libexn + string"

record config =
  publisher :: "publisher option"
  topic_path :: "string option"

definition PROJECT_ID :: "(string \<rightharpoonup> string) \<Rightarrow> string" where
  "PROJECT_ID environ =
     (case environ ''PROJECT_ID'' of None \<Rightarrow> ''sasmit-log-processor'' | Some v \<Rightarrow> v)"

definition TOPIC_NAME :: string where
  "TOPIC_NAME = ''log-ingestion''"

text \<open>Module initialisation: the publisher exists in production only.\<close>

definition startup :: "(string \<rightharpoonup> string) \<Rightarrow> publisher \<Rightarrow> config" where
  "startup environ client =
     (if environ ''ENVIRONMENT'' = Some ''production''
      then \<lparr>publisher = Some client,
            topic_path = Some (''projects/'' @ PROJECT_ID environ @ ''/topics/'' @ TOPIC_NAME)\<rparr>
      else \<lparr>publisher = None, topic_path = None\<rparr>)"

text \<open>The four variables the dispatch sets: tenant_id, log_id, text, source.\<close>

type_synonym fields = "json \<times> json \<times> json \<times> json"

text \<open>
  Dispatch on the content type. \<open>uuid4\<close> is the text of the identifier that
  \<open>uuid.uuid4()\<close> draws for this request. Only \<open>request.json()\<close> is inside the
  \<open>try\<close>; a body that parses to something other than a dict fails at \<open>data.get\<close>.
\<close>

definition header_get :: "string option \<Rightarrow> string \<Rightarrow> string" where
  "header_get h d = (case h of None \<Rightarrow> d | Some v \<Rightarrow> v)"

definition dispatch :: "pylib \<Rightarrow> string \<Rightarrow> request \<Rightarrow> exn + fields" where
  "dispatch lib uuid4 req =
     (let ct = header_get (content_type req) [] in
      if substring_in ''application/json'' ct then
        (case json_loads lib (body req) of
           Inl e \<Rightarrow>
             (if e = JSONDecodeError
              then Inl (HTTPException 400 (Detail ''Invalid JSON''))
              else Inl (Lib e))
         | Inr data \<Rightarrow>
             (case dict_get data ''tenant_id'' JNull of
                Inl e \<Rightarrow> Inl e
              | Inr tenant_id \<Rightarrow>
             (case dict_get data ''log_id'' JNull of
                Inl e \<Rightarrow> Inl e
              | Inr log_id \<Rightarrow>
             (case dict_get data ''text'' JNull of
                Inl e \<Rightarrow> Inl e
              | Inr text \<Rightarrow> Inr (tenant_id, log_id, text, JStr ''json'')))))
      else if substring_in ''text/plain'' ct then
        (case utf8_decode lib (body req) of
           Inl e \<Rightarrow> Inl (Lib e)
         | Inr text \<Rightarrow>
             Inr (case x_tenant_id req of None \<Rightarrow> JNull | Some t \<Rightarrow> JStr t,
                  JStr uuid4, JStr text, JStr ''text_upload''))
      else Inl (HTTPException 415
                  (Detail ''Content-Type must be application/json or text/plain'')))"

text \<open>The validation: \<open>not tenant_id\<close>, then \<open>not text or text.strip() == ""\<close>.\<close>

definition validate :: "fields \<Rightarrow> exn + unit" where
  "validate f =
     (case f of (tenant_id, log_id, text, source) \<Rightarrow>
        if \<not> truthy tenant_id
        then Inl (HTTPException 400 (Detail ''Missing tenant_id''))
        else if \<not> truthy text
        then Inl (HTTPException 400 (Detail ''Missing or empty text''))
        else (case str_strip text of
                Inl e \<Rightarrow> Inl e
              | Inr s \<Rightarrow>
                  if s = []
                  then Inl (HTTPException 400 (Detail ''Missing or empty text''))
                  else Inr ()))"

definition message_of :: "fields \<Rightarrow> json" where
  "message_of f =
     (case f of (tenant_id, log_id, text, source) \<Rightarrow>
        JDict [(''tenant_id'', tenant_id), (''log_id'', log_id),
               (''text'', text), (''source'', source)])"

definition accepted :: "json \<Rightarrow> json \<times> int" where
  "accepted log_id = (JDict [(''status'', JStr ''accepted''), (''log_id'', log_id)], 202)"

text \<open>
  The handler. Its second result lists the calls to \<open>publisher.publish\<close> it made, each
  with the topic path and the message.
\<close>

definition ingest ::
  "pylib \<Rightarrow> config \<Rightarrow> string \<Rightarrow> request \<Rightarrow> json outcome \<times> (string \<times> json) list" where
  "ingest lib cfg uuid4 req =
     (case dispatch lib uuid4 req of
        Inl e \<Rightarrow> (Inl e, [])
      | Inr f \<Rightarrow>
          (case validate f of
             Inl e \<Rightarrow> (Inl e, [])
           | Inr _ \<Rightarrow>
               (case (publisher cfg, topic_path cfg) of
                  (Some client, Some path) \<Rightarrow>
                    if path \<noteq> [] then
                      (case client path (message_of f) of
                         Inl e \<Rightarrow> (Inl (Lib e), [(path, message_of f)])
                       | Inr _ \<Rightarrow> (Inr (accepted (fst (snd f))), [(path, message_of f)]))
                    else (Inr (accepted (fst (snd f))), [])
                | _ \<Rightarrow> (Inr (accepted (fst (snd f))), []))))"

section \<open>Processing Worker (worker/worker.py)\<close>

text \<open>\<open>key in x\<close> and \<open>x[key]\<close> for a string key, \<open>len(x)\<close>.\<close>

fun py_in :: "string \<Rightarrow> json \<Rightarrow> exn + bool" where
  "py_in k (JDict kvs) = Inr (map_of kvs k \<noteq> None)"
| "py_in k (JList xs) = Inr (JStr k \<in> set xs)"
| "py_in k (JStr s) = Inr (substring_in k s)"
| "py_in k _ = Inl (Lib (Error ''TypeError''))"

fun subscript :: "json \<Rightarrow> string \<Rightarrow> exn + json" where
  "subscript (JDict kvs) k =
     (case map_of kvs k of None \<Rightarrow> Inl (Lib (Error ''KeyError'')) | Some v \<Rightarrow> Inr v)"
| "subscript _ k = Inl (Lib (Error ''TypeError''))"

fun len :: "json \<Rightarrow> exn + nat" where
  "len (JStr s) = Inr (length s)"
| "len (JList xs) = Inr (length xs)"
| "len (JDict kvs) = Inr (length kvs)"
| "len _ = Inl (Lib (Error ''TypeError''))"

text \<open>
  \<open>str.replace(old, new)\<close>: every occurrence of \<open>old\<close>, found from the left and not
  overlapping, becomes \<open>new\<close>; an empty \<open>old\<close> matches before each character and at
  the end.
\<close>

fun replace :: "string \<Rightarrow> string \<Rightarrow> string \<Rightarrow> string" where
  "replace [] new s = new @ concat (map (\<lambda>c. c # new) s)"
| "replace (a # as) new [] = []"
| "replace (a # as) new (c # cs) =
     (if startswith (c # cs) (a # as)
      then new @ replace (a # as) new (drop (length as) cs)
      else c # replace (a # as) new cs)"

fun str_replace :: "json \<Rightarrow> string \<Rightarrow> string \<Rightarrow> exn + string" where
  "str_replace (JStr s) old new = Inr (replace old new s)"
| "str_replace _ old new = Inl (Lib (Error ''AttributeError''))"

text \<open>\<open>base64.b64decode(x)\<close>: the library function on a \<open>str\<close>, a TypeError otherwise.\<close>

fun b64decode_value :: "pylib \<Rightarrow> json \<Rightarrow> exn + string" where
  "b64decode_value lib (JStr s) =
     (case b64decode lib s of Inl e \<Rightarrow> Inl (Lib e) | Inr b \<Rightarrow> Inr b)"
| "b64decode_value lib _ = Inl (Lib (Error ''TypeError''))"

text \<open>
  Floats are not modelled as numbers. The one float the Worker computes is
  \<open>len(text) * 0.05\<close>; \<open>Times_0_05 n\<close> stands for the double that \<open>n * 0.05\<close>
  evaluates to.
\<close>

datatype pyfloat = Times_0_05 nat

text \<open>The stored document and the dict the handler returns.\<close>

record document =
  source :: json
  original_text :: json
  modified_data :: string
  processed_at :: nat
  processing_time_seconds :: pyfloat
  text_length :: nat

record processed =
  status_field :: string
  log_id_field :: json
  tenant_id_field :: json
  processing_time_field :: pyfloat

text \<open>
  The store maps a document path to the document. \<open>document(id)\<close> joins the
  collection's path and the identifier with \<open>/\<close>, which is a TypeError when the
  identifier is not a \<open>str\<close>, splits the result at every \<open>/\<close> again and raises a
  ValueError unless the number of segments is even. The collection's path has an odd
  number of segments, so the identifier must hold an even number of \<open>/\<close>.
\<close>

type_synonym store = "string \<rightharpoonup> document"

fun document_id :: "json \<Rightarrow> exn + string" where
  "document_id (JStr s) =
     (if even (count_list s CHR ''/'') then Inr s else Inl (Lib (Error ''ValueError'')))"
| "document_id _ = Inl (Lib (Error ''TypeError''))"

definition document_path :: "string \<Rightarrow> string \<Rightarrow> string" where
  "document_path t l = ''tenants/'' @ t @ ''/processed_logs/'' @ l"

definition doc_ref :: "json \<Rightarrow> json \<Rightarrow> exn + string" where
  "doc_ref tenant_id log_id =
     (case document_id tenant_id of
        Inl e \<Rightarrow> Inl e
      | Inr t \<Rightarrow>
          (case document_id log_id of
             Inl e \<Rightarrow> Inl e
           | Inr l \<Rightarrow> Inr (document_path t l)))"

text \<open>
  Lines 32 to 39: the envelope, the \<open>message\<close> key, the base64 data, the payload.
\<close>

definition payload :: "pylib \<Rightarrow> request \<Rightarrow> exn + json" where
  "payload lib req =
     (case json_loads lib (body req) of
        Inl e \<Rightarrow> Inl (Lib e)
      | Inr envelope \<Rightarrow>
     (case py_in ''message'' envelope of
        Inl e \<Rightarrow> Inl e
      | Inr present \<Rightarrow>
          if \<not> present
          then Inl (HTTPException 400 (Detail ''Invalid Pub/Sub message format''))
          else
     (case subscript envelope ''message'' of
        Inl e \<Rightarrow> Inl e
      | Inr m \<Rightarrow>
     (case subscript m ''data'' of
        Inl e \<Rightarrow> Inl e
      | Inr d \<Rightarrow>
     (case b64decode_value lib d of
        Inl e \<Rightarrow> Inl e
      | Inr message_data \<Rightarrow>
     (case json_loads lib message_data of
        Inl e \<Rightarrow> Inl (Lib e)
      | Inr data \<Rightarrow> Inr data))))))"

text \<open>Lines 41 to 44: the four reads of the payload (\<open>src\<close> is the variable \<open>source\<close>).\<close>

definition read_fields :: "json \<Rightarrow> exn + fields" where
  "read_fields data =
     (case dict_get data ''tenant_id'' JNull of
        Inl e \<Rightarrow> Inl e
      | Inr tenant_id \<Rightarrow>
     (case dict_get data ''log_id'' JNull of
        Inl e \<Rightarrow> Inl e
      | Inr log_id \<Rightarrow>
     (case dict_get data ''text'' JNull of
        Inl e \<Rightarrow> Inl e
      | Inr text \<Rightarrow>
     (case dict_get data ''source'' (JStr ''unknown'') of
        Inl e \<Rightarrow> Inl e
      | Inr src \<Rightarrow> Inr (tenant_id, log_id, text, src)))))"

text \<open>
  Lines 47 to 78 on the fields. \<open>write\<close> is what \<open>doc_ref.set\<close> meets at the server:
  the exception it raises, or the time the server stamps on the document. \<open>set\<close>
  replaces the document at the path. \<open>time.sleep(processing_time)\<close> lets time pass and
  changes no value; it has no counterpart here.
\<close>

definition handle :: "libexn + nat \<Rightarrow> store \<Rightarrow> fields \<Rightarrow> processed outcome \<times> store" where
  "handle write db f =
     (case f of (tenant_id, log_id, text, src) \<Rightarrow>
        if \<not> (truthy tenant_id \<and> truthy log_id \<and> truthy text)
        then (Inl (HTTPException 400 (Detail ''Missing required fields'')), db)
        else
     (case len text of
        Inl e \<Rightarrow> (Inl e, db)
      | Inr n \<Rightarrow>
     (case str_replace text ''555-'' ''[REDACTED]-'' of
        Inl e \<Rightarrow> (Inl e, db)
      | Inr modified_text \<Rightarrow>
     (case doc_ref tenant_id log_id of
        Inl e \<Rightarrow> (Inl e, db)
      | Inr path \<Rightarrow>
     (case write of
        Inl e \<Rightarrow> (Inl (Lib e), db)
      | Inr now \<Rightarrow>
          (Inr (\<lparr>status_field = ''processed'', log_id_field = log_id,
                 tenant_id_field = tenant_id,
                 processing_time_field = Times_0_05 n\<rparr>, 200),
           db(path \<mapsto>
              \<lparr>source = src,
               original_text = text,
               modified_data = modified_text,
               processed_at = now,
               processing_time_seconds = Times_0_05 n,
               text_length = n\<rparr>)))))))"

text \<open>The body of the \<open>try\<close>.\<close>

definition process_try ::
  "pylib \<Rightarrow> libexn + nat \<Rightarrow> store \<Rightarrow> request \<Rightarrow> processed outcome \<times> store" where
  "process_try lib write db req =
     (case payload lib req of
        Inl e \<Rightarrow> (Inl e, db)
      | Inr data \<Rightarrow>
          (case read_fields data of
             Inl e \<Rightarrow> (Inl e, db)
           | Inr f \<Rightarrow> handle write db f))"

text \<open>
  The handler: the \<open>try\<close> with its two \<open>except\<close> clauses, in their order.
  \<open>except Exception\<close> takes every exception that is not a \<open>JSONDecodeError\<close>, the
  \<open>HTTPException\<close>s raised inside the \<open>try\<close> among them.
\<close>

definition process ::
  "pylib \<Rightarrow> libexn + nat \<Rightarrow> store \<Rightarrow> request \<Rightarrow> processed outcome \<times> store" where
  "process lib write db req =
     (case process_try lib write db req of
        (Inl e, db') \<Rightarrow>
          (if e = Lib JSONDecodeError
           then (Inl (HTTPException 400 (Detail ''Invalid JSON in message'')), db')
           else (Inl (HTTPException 500 (Str e)), db'))
      | (Inr v, db') \<Rightarrow> (Inr v, db'))"

text \<open>
  What the handler does to the outside, in the order in which it happens: \<open>Sleep t\<close>
  when \<open>time.sleep(t)\<close> has run, \<open>Set p d\<close> when \<open>set\<close> has put the document
  \<open>d\<close> at the path \<open>p\<close>. The sleep of line 52 comes right after the length is
  taken, before the replacement, the document reference and the write; a write that
  raises has put nothing.
\<close>

datatype effect = Sleep pyfloat | Set string document

definition handle_effects :: "libexn + nat \<Rightarrow> fields \<Rightarrow> effect list" where
  "handle_effects write f =
     (case f of (tenant_id, log_id, text, src) \<Rightarrow>
        if \<not> (truthy tenant_id \<and> truthy log_id \<and> truthy text)
        then []
        else
     (case len text of
        Inl e \<Rightarrow> []
      | Inr n \<Rightarrow>
          Sleep (Times_0_05 n) #
     (case str_replace text ''555-'' ''[REDACTED]-'' of
        Inl e \<Rightarrow> []
      | Inr modified_text \<Rightarrow>
     (case doc_ref tenant_id log_id of
        Inl e \<Rightarrow> []
      | Inr path \<Rightarrow>
     (case write of
        Inl e \<Rightarrow> []
      | Inr now \<Rightarrow>
          [Set path
             \<lparr>source = src,
              original_text = text,
              modified_data = modified_text,
              processed_at = now,
              processing_time_seconds = Times_0_05 n,
              text_length = n\<rparr>])))))"

definition process_effects :: "pylib \<Rightarrow> libexn + nat \<Rightarrow> request \<Rightarrow> effect list" where
  "process_effects lib write req =
     (case payload lib req of
        Inl e \<Rightarrow> []
      | Inr data \<Rightarrow>
          (case read_fields data of
             Inl e \<Rightarrow> []
           | Inr f \<Rightarrow> handle_effects write f))"

text \<open>The store after a list of effects.\<close>

fun run :: "effect list \<Rightarrow> store \<Rightarrow> store" where
  "run [] db = db"
| "run (Sleep t # es) db = run es db"
| "run (Set p d # es) db = run es (db(p \<mapsto> d))"

section \<open>Words of the specification\<close>




section \<open>Concrete inputs\<close>

text \<open>
  A library given by what it returns on the inputs listed: \<open>json.loads\<close> on a listed
  body gives the listed value, \<open>b64decode\<close> on a listed string the listed bytes; the
  requests below use listed inputs only. UTF-8 decoding of the ASCII bodies used is the
  identity.
\<close>

definition table_lib :: "(string \<times> json) list \<Rightarrow> (string \<times> string) list \<Rightarrow> pylib" where
  "table_lib js bs =
     \<lparr>json_loads = (\<lambda>b. case map_of js b of None \<Rightarrow> Inl JSONDecodeError | Some v \<Rightarrow> Inr v),
      utf8_decode = (\<lambda>b. Inr b),
      b64decode = (\<lambda>s. case map_of bs s of
                          None \<Rightarrow> Inl (Error ''binascii.Error'') | Some b \<Rightarrow> Inr b)\<rparr>"


definition production :: "string \<rightharpoonup> string" where
  "production = [''ENVIRONMENT'' \<mapsto> ''production'']"

definition acking :: publisher where
  "acking topic m = Inr ''1''"

definition unavailable :: publisher where
  "unavailable topic m = Inl (Error ''ServiceUnavailable'')"

definition json_request :: "string \<Rightarrow> request" where
  "json_request b = \<lparr>content_type = Some ''application/json'', x_tenant_id = None, body = b\<rparr>"

definition text_request :: "string option \<Rightarrow> string \<Rightarrow> request" where
  "text_request t b = \<lparr>content_type = Some ''text/plain'', x_tenant_id = t, body = b\<rparr>"

text \<open>
  The push requests of the queue. Each body is the envelope \<open>{"message": {"data": d}}\<close>
  where \<open>d\<close> is the base64 text of the message bytes, and the message bytes are what
  \<open>json.dumps\<close> writes for the message.
\<close>

definition envelope_of :: "string \<Rightarrow> json" where
  "envelope_of d = JDict [(''message'', JDict [(''data'', JStr d)])]"

definition acme_message :: json where
  "acme_message = JDict [(''tenant_id'', JStr ''acme''), (''log_id'', JStr ''L1''),
                         (''text'', JStr ''call 555-1234''), (''source'', JStr ''json'')]"

definition acme_bytes :: string where
  \<open>acme_bytes = ''{"tenant_id": "acme", "log_id": "L1", "text": "call 555-1234", "source": "json"}''\<close>

definition acme_data :: string where
  "acme_data = ''eyJ0ZW5hbnRfaWQiOiAiYWNtZSIsICJsb2dfaWQiOiAiTDEiLCAidGV4dCI6ICJjYWxsIDU1NS0xMjM0IiwgInNvdXJjZSI6ICJqc29uIn0=''"

definition acme_envelope :: string where
  \<open>acme_envelope = ''{"message": {"data": "eyJ0ZW5hbnRfaWQiOiAiYWNtZSIsICJsb2dfaWQiOiAiTDEiLCAidGV4dCI6ICJjYWxsIDU1NS0xMjM0IiwgInNvdXJjZSI6ICJqc29uIn0="}}''\<close>

definition beta_message :: json where
  "beta_message = JDict [(''tenant_id'', JStr ''beta''), (''log_id'', JStr ''L9''),
                         (''text'', JStr ''call 555-1234''), (''source'', JStr ''text_upload'')]"

definition beta_bytes :: string where
  \<open>beta_bytes = ''{"tenant_id": "beta", "log_id": "L9", "text": "call 555-1234", "source": "text_upload"}''\<close>

definition beta_data :: string where
  "beta_data = ''eyJ0ZW5hbnRfaWQiOiAiYmV0YSIsICJsb2dfaWQiOiAiTDkiLCAidGV4dCI6ICJjYWxsIDU1NS0xMjM0IiwgInNvdXJjZSI6ICJ0ZXh0X3VwbG9hZCJ9''"

definition beta_envelope :: string where
  \<open>beta_envelope = ''{"message": {"data": "eyJ0ZW5hbnRfaWQiOiAiYmV0YSIsICJsb2dfaWQiOiAiTDkiLCAidGV4dCI6ICJjYWxsIDU1NS0xMjM0IiwgInNvdXJjZSI6ICJ0ZXh0X3VwbG9hZCJ9"}}''\<close>

definition partial_message :: json where
  "partial_message = JDict [(''log_id'', JStr ''L1''), (''text'', JStr ''x'')]"

definition partial_bytes :: string where
  \<open>partial_bytes = ''{"log_id": "L1", "text": "x"}''\<close>

definition partial_data :: string where
  "partial_data = ''eyJsb2dfaWQiOiAiTDEiLCAidGV4dCI6ICJ4In0=''"

definition partial_envelope :: string where
  \<open>partial_envelope = ''{"message": {"data": "eyJsb2dfaWQiOiAiTDEiLCAidGV4dCI6ICJ4In0="}}''\<close>

definition worker_lib :: pylib where
  "worker_lib = table_lib
     [(''{}'', JDict []),
      (acme_envelope, envelope_of acme_data), (acme_bytes, acme_message),
      (beta_envelope, envelope_of beta_data), (beta_bytes, beta_message),
      (partial_envelope, envelope_of partial_data), (partial_bytes, partial_message)]
     [(acme_data, acme_bytes), (beta_data, beta_bytes), (partial_data, partial_bytes)]"

definition push :: "string \<Rightarrow> request" where
  "push b = \<lparr>content_type = Some ''application/json'', x_tenant_id = None, body = b\<rparr>"

text \<open>
  The log entry of the end-to-end scenario as the client posts it, and the topic path of
  the default project.
\<close>

definition acme_entry :: json where
  "acme_entry = JDict [(''tenant_id'', JStr ''acme''), (''log_id'', JStr ''L1''),
                       (''text'', JStr ''call 555-1234'')]"

definition acme_entry_body :: string where
  \<open>acme_entry_body = ''{"tenant_id":"acme","log_id":"L1","text":"call 555-1234"}''\<close>

definition gateway_lib :: pylib where
  "gateway_lib = table_lib [(acme_entry_body, acme_entry)] []"

definition topic :: string where
  "topic = ''projects/sasmit-log-processor/topics/log-ingestion''"

section \<open>Evaluation rules\<close>

lemmas eval_gateway =
  ingest_def dispatch_def validate_def header_get_def startswith_def table_lib_def
  json_request_def text_request_def startup_def production_def PROJECT_ID_def TOPIC_NAME_def
  acking_def unavailable_def message_of_def accepted_def respond_def strip_def isspace_def

lemmas eval_gateway2 = eval_gateway gateway_lib_def acme_entry_def acme_entry_body_def topic_def

lemmas eval_fixtures =
  worker_lib_def table_lib_def push_def envelope_of_def
  acme_message_def acme_bytes_def acme_data_def acme_envelope_def
  beta_message_def beta_bytes_def beta_data_def beta_envelope_def
  partial_message_def partial_bytes_def partial_data_def partial_envelope_def

section \<open>The Gateway's validation\<close>




lemma validate_Inr:
  "validate (tenant_id, log_id, text, src) = Inr u \<Longrightarrow>
   truthy tenant_id \<and> (\<exists>s. text = JStr s \<and> strip s \<noteq> [])"
  by (cases "text") (auto simp: validate_def split: if_splits)

lemma dispatch_json_object:
  assumes "substring_in ''application/json'' (header_get (content_type req) [])"
    and "json_loads lib (body req) = Inr (JDict kvs)"
  shows "dispatch lib uuid4 req =
           Inr (case map_of kvs ''tenant_id'' of None \<Rightarrow> JNull | Some v \<Rightarrow> v,
                case map_of kvs ''log_id'' of None \<Rightarrow> JNull | Some v \<Rightarrow> v,
                case map_of kvs ''text'' of None \<Rightarrow> JNull | Some v \<Rightarrow> v,
                JStr ''json'')"
  using assms by (simp add: dispatch_def)

lemma dispatch_plain_text:
  assumes "\<not> substring_in ''application/json'' (header_get (content_type req) [])"
    and "substring_in ''text/plain'' (header_get (content_type req) [])"
    and "utf8_decode lib (body req) = Inr s"
  shows "dispatch lib uuid4 req =
           Inr (case x_tenant_id req of None \<Rightarrow> JNull | Some t \<Rightarrow> JStr t,
                JStr uuid4, JStr s, JStr ''text_upload'')"
  using assms by (simp add: dispatch_def)

lemma ingest_dispatch_error:
  "dispatch lib uuid4 req = Inl e \<Longrightarrow> ingest lib cfg uuid4 req = (Inl e, [])"
  by (simp add: ingest_def)






text \<open>
  C2 fails on the code. A JSON request that gives \<open>tenant_id\<close> and \<open>text\<close> but no
  \<open>log_id\<close> passes the validation: the handler returns the accepted value and hands the
  publisher a message whose \<open>log_id\<close> is \<open>None\<close>. The plain-text branch draws an
  identifier, the JSON branch does not, and the Worker refuses such a message.
\<close>

theorem ingest_json_without_log_id:
  \<open>ingest (table_lib [(''{"tenant_id": "acme", "text": "hello"}'',
                        JDict [(''tenant_id'', JStr ''acme''), (''text'', JStr ''hello'')])] [])
      (startup production acking) ''u1''
      (json_request ''{"tenant_id": "acme", "text": "hello"}'')
   = (Inr (JDict [(''status'', JStr ''accepted''), (''log_id'', JNull)], 202),
      [(''projects/sasmit-log-processor/topics/log-ingestion'',
        JDict [(''tenant_id'', JStr ''acme''), (''log_id'', JNull),
               (''text'', JStr ''hello''), (''source'', JStr ''json'')])])\<close>
  by (simp add: eval_gateway)

section \<open>The Gateway's answer\<close>

text \<open>
  C3 fails on the code. A valid request of either encoding is accepted, and the handler
  returns the tuple of the accepted dict and the number 202. The route declares no status
  code, so the response has status 200 and its body is the array of the dict and 202, not
  status 202 with the dict as the body. The log identifier is the client's for JSON and the
  drawn one for plain text.
\<close>

theorem ingest_accepted_answers_200:
  "respond (fst (ingest gateway_lib (startup production acking)
                   ''0b1e3c0a-5d0e-4b1f-9d43-7a8a1c6f2e11'' (json_request acme_entry_body)))
     = \<lparr>status = 200,
        content = Array (JDict [(''status'', JStr ''accepted''), (''log_id'', JStr ''L1'')]) 202\<rparr>
   \<and> respond (fst (ingest gateway_lib (startup production acking)
                   ''0b1e3c0a-5d0e-4b1f-9d43-7a8a1c6f2e11'' (text_request (Some ''acme'') ''hello'')))
     = \<lparr>status = 200,
        content = Array (JDict [(''status'', JStr ''accepted''),
                                (''log_id'', JStr ''0b1e3c0a-5d0e-4b1f-9d43-7a8a1c6f2e11'')]) 202\<rparr>"
  by (simp add: eval_gateway2)

section \<open>The Gateway without a publisher\<close>








section \<open>The published text\<close>

lemma ingest_accepted:
  assumes "ingest lib cfg uuid4 req = (Inr a, calls)"
  shows "\<exists>f. dispatch lib uuid4 req = Inr f \<and> validate f = Inr () \<and>
             a = accepted (fst (snd f)) \<and> (\<forall>c \<in> set calls. snd c = message_of f)"
  using assms
  by (auto simp: ingest_def split: sum.splits option.splits if_splits)

lemma dispatch_json:
  assumes "substring_in ''application/json'' (header_get (content_type req) [])"
    and "dispatch lib uuid4 req = Inr (tenant_id, log_id, tx, src)"
  shows "\<exists>data. json_loads lib (body req) = Inr data \<and>
           dict_get data ''tenant_id'' JNull = Inr tenant_id \<and>
           dict_get data ''log_id'' JNull = Inr log_id \<and>
           dict_get data ''text'' JNull = Inr tx \<and> src = JStr ''json''"
  using assms
  by (auto simp: dispatch_def split: sum.splits if_splits)

lemma dispatch_text:
  assumes "\<not> substring_in ''application/json'' (header_get (content_type req) [])"
    and "dispatch lib uuid4 req = Inr (tenant_id, log_id, tx, src)"
  shows "\<exists>s. utf8_decode lib (body req) = Inr s \<and> tx = JStr s \<and>
           tenant_id = (case x_tenant_id req of None \<Rightarrow> JNull | Some t \<Rightarrow> JStr t) \<and>
           log_id = JStr uuid4 \<and> src = JStr ''text_upload''"
  using assms
  by (auto simp: dispatch_def split: sum.splits if_splits)

lemma subscript_message_text:
  "subscript (message_of (tenant_id, log_id, tx, src)) ''text'' = Inr tx"
  by (simp add: message_of_def)

lemma ingest_published:
  assumes "ingest lib cfg uuid4 req = (Inr a, calls)"
    and "publisher cfg = Some client" and "topic_path cfg = Some path" and "path \<noteq> []"
  shows "\<exists>f. dispatch lib uuid4 req = Inr f \<and> calls = [(path, message_of f)]"
  using assms
  by (auto simp: ingest_def split: sum.splits if_splits)

text \<open>
  C10. When a request is accepted, the \<open>text\<close> of every message handed to the
  publisher is the text as received: for JSON the value of the field \<open>text\<close> of the
  parsed body, for plain text the decoded body. Nothing is trimmed. And with a publisher
  and a topic path configured, exactly one message is handed over, on that topic.
\<close>

theorem ingest_publishes_text_as_received:
  assumes acc: "ingest lib cfg uuid4 req = (Inr a, calls)"
  shows "(\<forall>(t, m) \<in> set calls.
            if substring_in ''application/json'' (header_get (content_type req) [])
            then \<exists>data. json_loads lib (body req) = Inr data \<and>
                   subscript m ''text'' = dict_get data ''text'' JNull
            else \<exists>s. utf8_decode lib (body req) = Inr s \<and>
                   subscript m ''text'' = Inr (JStr s))
       \<and> (\<forall>client path.
            publisher cfg = Some client \<and> topic_path cfg = Some path \<and> path \<noteq> []
            \<longrightarrow> (\<exists>m. calls = [(path, m)]))"
proof (intro conjI ballI allI impI)
  fix c
  assume pub: "c \<in> set calls"
  obtain t m where c: "c = (t, m)"
    by (cases c)
  from ingest_accepted[OF acc] pub c obtain f where
    d: "dispatch lib uuid4 req = Inr f" and m: "m = message_of f"
    by fastforce
  obtain tenant_id log_id tx src where f: "f = (tenant_id, log_id, tx, src)"
    by (cases f)
  show "case c of (t, m) \<Rightarrow>
          if substring_in ''application/json'' (header_get (content_type req) [])
          then \<exists>data. json_loads lib (body req) = Inr data \<and>
                 subscript m ''text'' = dict_get data ''text'' JNull
          else \<exists>s. utf8_decode lib (body req) = Inr s \<and>
                 subscript m ''text'' = Inr (JStr s)"
  proof (cases "substring_in ''application/json'' (header_get (content_type req) [])")
    case True
    from dispatch_json[OF True d[unfolded f]] m f c True show ?thesis
      by (auto simp: subscript_message_text)
  next
    case False
    from dispatch_text[OF False d[unfolded f]] m f c False show ?thesis
      by (auto simp: subscript_message_text)
  qed
next
  fix client path
  assume "publisher cfg = Some client \<and> topic_path cfg = Some path \<and> path \<noteq> []"
  with ingest_published[OF acc] show "\<exists>m. calls = [(path, m)]"
    by blast
qed

lemma ingest_padded:
  "ingest (table_lib [] []) (startup production acking) ''u1''
     (text_request (Some ''acme'') ''  hello  '')
   = (Inr (JDict [(''status'', JStr ''accepted''), (''log_id'', JStr ''u1'')], 202),
      [(topic, JDict [(''tenant_id'', JStr ''acme''), (''log_id'', JStr ''u1''),
                      (''text'', JStr ''  hello  ''), (''source'', JStr ''text_upload'')])])"
  by (simp add: eval_gateway2)

text \<open>
  The theorem at the upload of \<open>"  hello  "\<close> for tenant \<open>acme\<close> in production: one
  message is published, and its text keeps the two leading and the two trailing spaces.
\<close>

theorem ingest_publishes_text_as_received_witness:
  "\<exists>m. snd (ingest (table_lib [] []) (startup production acking) ''u1''
               (text_request (Some ''acme'') ''  hello  '')) = [(topic, m)] \<and>
       subscript m ''text'' = Inr (JStr ''  hello  '')"
proof -
  let ?m = "JDict [(''tenant_id'', JStr ''acme''), (''log_id'', JStr ''u1''),
                   (''text'', JStr ''  hello  ''), (''source'', JStr ''text_upload'')]"
  have ct: "\<not> substring_in ''application/json''
              (header_get (content_type (text_request (Some ''acme'') ''  hello  '')) [])"
    by (simp add: eval_gateway)
  have dec: "utf8_decode (table_lib [] []) (body (text_request (Some ''acme'') ''  hello  ''))
               = Inr ''  hello  ''"
    by (simp add: eval_gateway)
  from ingest_publishes_text_as_received[OF ingest_padded] ct dec
  have "subscript ?m ''text'' = Inr (JStr ''  hello  '')"
    by auto
  with ingest_padded show ?thesis
    by simp
qed

section \<open>What the Worker does on success\<close>

lemma str_replace_Inr:
  "str_replace v old new = Inr r \<Longrightarrow> \<exists>s. v = JStr s \<and> r = replace old new s"
  by (cases v) auto

lemma document_id_Inr: "document_id v = Inr r \<Longrightarrow> v = JStr r"
  by (cases v) (auto split: if_splits)

lemma doc_ref_Inr:
  "doc_ref tenant_id log_id = Inr p \<Longrightarrow>
   \<exists>t l. tenant_id = JStr t \<and> log_id = JStr l \<and> p = document_path t l"
  by (auto simp: doc_ref_def split: sum.splits dest: document_id_Inr)

lemma handle_Inr:
  assumes "handle write db (tenant_id, log_id, text, src) = (Inr a, db')"
  shows "\<exists>t l s now. tenant_id = JStr t \<and> log_id = JStr l \<and> text = JStr s \<and> write = Inr now \<and>
           t \<noteq> [] \<and> l \<noteq> [] \<and> s \<noteq> [] \<and>
           a = (\<lparr>status_field = ''processed'', log_id_field = log_id,
                 tenant_id_field = tenant_id,
                 processing_time_field = Times_0_05 (length s)\<rparr>, 200) \<and>
           db' = db(document_path t l \<mapsto>
                  \<lparr>source = src, original_text = JStr s,
                   modified_data = replace ''555-'' ''[REDACTED]-'' s,
                   processed_at = now,
                   processing_time_seconds = Times_0_05 (length s),
                   text_length = length s\<rparr>)"
  using assms
  by (auto simp: handle_def split: if_splits sum.splits
           dest!: str_replace_Inr doc_ref_Inr)


lemma process_try_Inr:
  assumes "process_try lib write db req = (Inr a, db')"
  shows "\<exists>data f. payload lib req = Inr data \<and> read_fields data = Inr f \<and>
           handle write db f = (Inr a, db')"
  using assms by (auto simp: process_try_def split: sum.splits)


lemma process_Inr:
  "process lib write db req = (Inr a, db') \<Longrightarrow> process_try lib write db req = (Inr a, db')"
  by (auto simp: process_def split: sum.splits prod.splits if_splits)


lemma read_fields_Inr:
  "read_fields data = Inr (tenant_id, log_id, text, src) \<Longrightarrow>
   dict_get data ''tenant_id'' JNull = Inr tenant_id \<and>
   dict_get data ''log_id'' JNull = Inr log_id \<and>
   dict_get data ''text'' JNull = Inr text \<and>
   dict_get data ''source'' (JStr ''unknown'') = Inr src"
  by (auto simp: read_fields_def split: sum.splits)

text \<open>
  A successful invocation has read three strings from the payload and has put one
  document at the path of tenant and log identifier.
\<close>

lemma process_success:
  assumes "process lib write db req = (Inr a, db')" and "payload lib req = Inr data"
  shows "\<exists>t l s src now.
           dict_get data ''tenant_id'' JNull = Inr (JStr t) \<and>
           dict_get data ''log_id'' JNull = Inr (JStr l) \<and>
           dict_get data ''text'' JNull = Inr (JStr s) \<and>
           dict_get data ''source'' (JStr ''unknown'') = Inr src \<and>
           write = Inr now \<and>
           db' = db(document_path t l \<mapsto>
                  \<lparr>source = src, original_text = JStr s,
                   modified_data = replace ''555-'' ''[REDACTED]-'' s,
                   processed_at = now,
                   processing_time_seconds = Times_0_05 (length s),
                   text_length = length s\<rparr>)"
proof -
  from process_try_Inr[OF process_Inr[OF assms(1)]] assms(2)
  obtain f where rf: "read_fields data = Inr f" and h: "handle write db f = (Inr a, db')"
    by auto
  obtain tenant_id log_id tx src where f: "f = (tenant_id, log_id, tx, src)"
    by (cases f)
  from handle_Inr[OF h[unfolded f]] read_fields_Inr[OF rf[unfolded f]]
  show ?thesis by auto
qed

section \<open>The Worker's effects\<close>

lemma run_handle_effects:
  "snd (handle write db f) = run (handle_effects write f) db"
  by (auto simp: handle_def handle_effects_def split: prod.splits sum.splits)

text \<open>The store the handler leaves is the store after the effects listed.\<close>

lemma run_process_effects:
  "snd (process lib write db req) = run (process_effects lib write req) db"
proof -
  have "snd (process lib write db req) = snd (process_try lib write db req)"
    by (auto simp: process_def split: prod.splits sum.splits)
  also have "\<dots> = run (process_effects lib write req) db"
    by (auto simp: process_try_def process_effects_def run_handle_effects split: sum.splits)
  finally show ?thesis .
qed

lemma handle_effects_success:
  assumes "handle write db (tenant_id, log_id, tx, src) = (Inr a, db')"
  shows "\<exists>s p d. tx = JStr s \<and>
           handle_effects write (tenant_id, log_id, tx, src)
             = [Sleep (Times_0_05 (length s)), Set p d] \<and>
           db' = db(p \<mapsto> d) \<and>
           processing_time_seconds d = Times_0_05 (length s) \<and>
           text_length d = length s"
  using assms
  by (auto simp: handle_def handle_effects_def split: if_splits sum.splits
           dest!: str_replace_Inr)

text \<open>
  C8. For every message the Worker processes successfully, with \<open>s\<close> the text of the
  payload: the handler sleeps once, for \<open>len(s) * 0.05\<close> seconds, then writes one
  document, and nothing else; the store it leaves is the old one with that document; the
  document's \<open>processing_time_seconds\<close> is the same \<open>len(s) * 0.05\<close> and its
  \<open>text_length\<close> is \<open>len(s)\<close>.
\<close>

theorem process_sleeps_then_writes:
  assumes ok: "process lib write db req = (Inr a, db')"
  shows "\<exists>data s p d.
           payload lib req = Inr data \<and>
           dict_get data ''text'' JNull = Inr (JStr s) \<and>
           process_effects lib write req = [Sleep (Times_0_05 (length s)), Set p d] \<and>
           db' = db(p \<mapsto> d) \<and>
           processing_time_seconds d = Times_0_05 (length s) \<and>
           text_length d = length s"
proof -
  from process_try_Inr[OF process_Inr[OF ok]] obtain data f where
    p: "payload lib req = Inr data" and rf: "read_fields data = Inr f" and
    h: "handle write db f = (Inr a, db')"
    by blast
  obtain tenant_id log_id tx src where f: "f = (tenant_id, log_id, tx, src)"
    by (cases f)
  from handle_effects_success[OF h[unfolded f]] obtain s q d where
    tx: "tx = JStr s" and
    e: "handle_effects write (tenant_id, log_id, tx, src)
          = [Sleep (Times_0_05 (length s)), Set q d]" and
    r: "db' = db(q \<mapsto> d)" "processing_time_seconds d = Times_0_05 (length s)"
       "text_length d = length s"
    by blast
  from read_fields_Inr[OF rf[unfolded f]] tx
  have t: "dict_get data ''text'' JNull = Inr (JStr s)"
    by simp
  from p rf f e have "process_effects lib write req = [Sleep (Times_0_05 (length s)), Set q d]"
    by (simp add: process_effects_def)
  with p t r show ?thesis
    by blast
qed

section \<open>The Worker on the concrete envelopes\<close>

lemma payload_acme: "payload worker_lib (push acme_envelope) = Inr acme_message"
  by (simp add: payload_def eval_fixtures)

lemma payload_beta: "payload worker_lib (push beta_envelope) = Inr beta_message"
  by (simp add: payload_def eval_fixtures)

lemma payload_partial: "payload worker_lib (push partial_envelope) = Inr partial_message"
  by (simp add: payload_def eval_fixtures)

lemma payload_empty:
  "payload worker_lib (push ''{}'') =
     Inl (HTTPException 400 (Detail ''Invalid Pub/Sub message format''))"
  by (simp add: payload_def eval_fixtures)

lemma redact_example: "replace ''555-'' ''[REDACTED]-'' ''call 555-1234'' = ''call [REDACTED]-1234''"
  by (simp add: startswith_def)

lemma process_acme_doc:
  "snd (process worker_lib (Inr now) db (push acme_envelope)) ''tenants/acme/processed_logs/L1'' =
     Some \<lparr>source = JStr ''json'', original_text = JStr ''call 555-1234'',
          modified_data = ''call [REDACTED]-1234'', processed_at = now,
          processing_time_seconds = Times_0_05 13, text_length = 13\<rparr>"
  by (simp add: process_def process_try_def payload_acme read_fields_def handle_def
        doc_ref_def document_path_def acme_message_def startswith_def)

lemma process_acme_ack:
  "fst (process worker_lib (Inr now) db (push acme_envelope)) =
     Inr (\<lparr>status_field = ''processed'', log_id_field = JStr ''L1'',
            tenant_id_field = JStr ''acme'', processing_time_field = Times_0_05 13\<rparr>, 200)"
  by (simp add: process_def process_try_def payload_acme read_fields_def handle_def
        doc_ref_def document_path_def acme_message_def startswith_def)

text \<open>
  The theorem of C8 at the envelope of the scenario, delivered at time 100 to the empty
  store.
\<close>

theorem process_sleeps_then_writes_witness:
  "\<exists>data s p d.
     payload worker_lib (push acme_envelope) = Inr data \<and>
     dict_get data ''text'' JNull = Inr (JStr s) \<and>
     process_effects worker_lib (Inr 100) (push acme_envelope)
       = [Sleep (Times_0_05 (length s)), Set p d] \<and>
     snd (process worker_lib (Inr 100) Map.empty (push acme_envelope)) = Map.empty(p \<mapsto> d) \<and>
     processing_time_seconds d = Times_0_05 (length s) \<and>
     text_length d = length s"
proof -
  have r: "process worker_lib (Inr 100) Map.empty (push acme_envelope) =
             (Inr (\<lparr>status_field = ''processed'', log_id_field = JStr ''L1'',
                    tenant_id_field = JStr ''acme'',
                    processing_time_field = Times_0_05 13\<rparr>, 200),
              snd (process worker_lib (Inr 100) Map.empty (push acme_envelope)))"
    by (simp add: prod_eq_iff process_acme_ack)
  from process_sleeps_then_writes[OF r] show ?thesis .
qed

lemma process_beta_ack:
  "fst (process worker_lib (Inr now) db (push beta_envelope)) =
     Inr (\<lparr>status_field = ''processed'', log_id_field = JStr ''L9'',
            tenant_id_field = JStr ''beta'', processing_time_field = Times_0_05 13\<rparr>, 200)"
  by (simp add: process_def process_try_def payload_beta read_fields_def handle_def
        doc_ref_def document_path_def beta_message_def startswith_def)

text \<open>
  C1 fails on the code. Both 400s are raised inside the \<open>try\<close>, and the clause
  \<open>except Exception\<close> catches them and raises a 500 in their place. The envelope
  \<open>{}\<close>, which has no \<open>message\<close> key, and the envelope whose payload has
  \<open>log_id\<close> and \<open>text\<close> but no \<open>tenant_id\<close> are both answered with status
  500, the status that makes the queue deliver the message again.
\<close>

theorem process_structural_errors_answer_500:
  "fst (process worker_lib (Inr 0) Map.empty (push ''{}'')) =
     Inl (HTTPException 500
            (Str (HTTPException 400 (Detail ''Invalid Pub/Sub message format''))))
   \<and> status (respond (fst (process worker_lib (Inr 0) Map.empty (push ''{}'')))) = 500
   \<and> fst (process worker_lib (Inr 0) Map.empty (push partial_envelope)) =
     Inl (HTTPException 500
            (Str (HTTPException 400 (Detail ''Missing required fields''))))
   \<and> status (respond (fst (process worker_lib (Inr 0) Map.empty (push partial_envelope)))) = 500"
  by (simp add: process_def process_try_def payload_empty payload_partial read_fields_def
        handle_def partial_message_def respond_def)

section \<open>Redelivery and redaction\<close>



text \<open>
  C6. Two successful invocations, with any libraries, stores, write times, tenants, log
  identifiers and sources, whose payloads carry the same \<open>text\<close>: each stores one
  document, and both documents have the same \<open>modified_data\<close>, which is the text
  with every \<open>555-\<close> replaced.
\<close>

theorem redaction_depends_on_text_only:
  assumes p1: "payload lib1 req1 = Inr data1" and p2: "payload lib2 req2 = Inr data2"
    and tx: "dict_get data1 ''text'' JNull = dict_get data2 ''text'' JNull"
    and r1: "process lib1 write1 db1 req1 = (Inr a1, db1')"
    and r2: "process lib2 write2 db2 req2 = (Inr a2, db2')"
  shows "\<exists>s p1 d1 p2 d2.
           dict_get data1 ''text'' JNull = Inr (JStr s) \<and>
           db1' = db1(p1 \<mapsto> d1) \<and> db2' = db2(p2 \<mapsto> d2) \<and>
           modified_data d1 = replace ''555-'' ''[REDACTED]-'' s \<and>
           modified_data d2 = modified_data d1"
proof -
  from process_success[OF r1 p1] obtain t1 l1 s1 src1 now1 where
    s1: "dict_get data1 ''text'' JNull = Inr (JStr s1)" and
    d1: "db1' = db1(document_path t1 l1 \<mapsto>
                  \<lparr>source = src1, original_text = JStr s1,
                   modified_data = replace ''555-'' ''[REDACTED]-'' s1,
                   processed_at = now1,
                   processing_time_seconds = Times_0_05 (length s1),
                   text_length = length s1\<rparr>)"
    by blast
  from process_success[OF r2 p2] obtain t2 l2 s2 src2 now2 where
    s2: "dict_get data2 ''text'' JNull = Inr (JStr s2)" and
    d2: "db2' = db2(document_path t2 l2 \<mapsto>
                  \<lparr>source = src2, original_text = JStr s2,
                   modified_data = replace ''555-'' ''[REDACTED]-'' s2,
                   processed_at = now2,
                   processing_time_seconds = Times_0_05 (length s2),
                   text_length = length s2\<rparr>)"
    by blast
  from tx s1 s2 have eq: "s2 = s1" by simp
  show ?thesis
    apply (rule exI[of _ s1])
    apply (rule exI[of _ "document_path t1 l1"])
    apply (rule exI[of _ "\<lparr>source = src1, original_text = JStr s1,
                   modified_data = replace ''555-'' ''[REDACTED]-'' s1,
                   processed_at = now1,
                   processing_time_seconds = Times_0_05 (length s1),
                   text_length = length s1\<rparr>"])
    apply (rule exI[of _ "document_path t2 l2"])
    apply (rule exI[of _ "\<lparr>source = src2, original_text = JStr s2,
                   modified_data = replace ''555-'' ''[REDACTED]-'' s2,
                   processed_at = now2,
                   processing_time_seconds = Times_0_05 (length s2),
                   text_length = length s2\<rparr>"])
    using s1 d1 d2 eq by simp
qed

text \<open>
  The theorem at two envelopes with the text \<open>call 555-1234\<close>: tenant \<open>acme\<close>,
  log \<open>L1\<close>, source \<open>json\<close> on the empty store, then tenant \<open>beta\<close>, log
  \<open>L9\<close>, source \<open>text_upload\<close> on the store the first has left.
\<close>

theorem redaction_depends_on_text_only_witness:
  "\<exists>s p1 d1 p2 d2.
     dict_get acme_message ''text'' JNull = Inr (JStr s) \<and>
     snd (process worker_lib (Inr 100) Map.empty (push acme_envelope)) = Map.empty(p1 \<mapsto> d1) \<and>
     snd (process worker_lib (Inr 200)
            (snd (process worker_lib (Inr 100) Map.empty (push acme_envelope)))
            (push beta_envelope))
       = (snd (process worker_lib (Inr 100) Map.empty (push acme_envelope)))(p2 \<mapsto> d2) \<and>
     modified_data d1 = replace ''555-'' ''[REDACTED]-'' s \<and>
     modified_data d2 = modified_data d1"
proof -
  let ?db1 = "snd (process worker_lib (Inr 100) Map.empty (push acme_envelope))"
  let ?db2 = "snd (process worker_lib (Inr 200) ?db1 (push beta_envelope))"
  have r1: "process worker_lib (Inr 100) Map.empty (push acme_envelope) =
              (Inr (\<lparr>status_field = ''processed'', log_id_field = JStr ''L1'',
                     tenant_id_field = JStr ''acme'',
                     processing_time_field = Times_0_05 13\<rparr>, 200), ?db1)"
    by (simp add: prod_eq_iff process_acme_ack)
  have r2: "process worker_lib (Inr 200) ?db1 (push beta_envelope) =
              (Inr (\<lparr>status_field = ''processed'', log_id_field = JStr ''L9'',
                     tenant_id_field = JStr ''beta'',
                     processing_time_field = Times_0_05 13\<rparr>, 200), ?db2)"
    by (simp add: prod_eq_iff process_beta_ack)
  have tx: "dict_get acme_message ''text'' JNull = dict_get beta_message ''text'' JNull"
    by (simp add: acme_message_def beta_message_def)
  from redaction_depends_on_text_only[OF payload_acme payload_beta tx r1 r2]
  show ?thesis .
qed

section \<open>The end-to-end scenario\<close>

text \<open>
  C5 fails on the code in its first part. The Gateway accepts the entry with
  \<open>log_id\<close> \<open>L1\<close> and publishes the message, but answers with status 200 and the
  array of the accepted dict and 202, not with status 202. The second part holds: the
  Worker, given the envelope of that message, acknowledges with 200 and stores under
  \<open>tenants/acme/processed_logs/L1\<close> the document whose \<open>modified_data\<close> is
  \<open>call [REDACTED]-1234\<close>.
\<close>

theorem end_to_end_acme:
  "respond (fst (ingest gateway_lib (startup production acking) ''u1''
                   (json_request acme_entry_body)))
     = \<lparr>status = 200,
        content = Array (JDict [(''status'', JStr ''accepted''), (''log_id'', JStr ''L1'')]) 202\<rparr>
   \<and> snd (ingest gateway_lib (startup production acking) ''u1'' (json_request acme_entry_body))
     = [(topic, acme_message)]
   \<and> payload worker_lib (push acme_envelope) = Inr acme_message
   \<and> status (respond (fst (process worker_lib (Inr 100) Map.empty (push acme_envelope)))) = 200
   \<and> snd (process worker_lib (Inr 100) Map.empty (push acme_envelope))
       ''tenants/acme/processed_logs/L1''
     = Some \<lparr>source = JStr ''json'', original_text = JStr ''call 555-1234'',
             modified_data = ''call [REDACTED]-1234'', processed_at = 100,
             processing_time_seconds = Times_0_05 13, text_length = 13\<rparr>"
proof -
  have g: "ingest gateway_lib (startup production acking) ''u1'' (json_request acme_entry_body)
           = (Inr (JDict [(''status'', JStr ''accepted''), (''log_id'', JStr ''L1'')], 202),
              [(topic, acme_message)])"
    by (simp add: eval_gateway2 acme_message_def)
  have r: "respond (Inr (JDict [(''status'', JStr ''accepted''), (''log_id'', JStr ''L1'')], 202))
           = \<lparr>status = 200,
              content = Array (JDict [(''status'', JStr ''accepted''),
                                      (''log_id'', JStr ''L1'')]) 202\<rparr>"
    by (simp add: respond_def)
  have w: "status (respond (fst (process worker_lib (Inr 100) Map.empty (push acme_envelope))))
           = 200"
    by (simp add: process_acme_ack respond_def)
  from g r w payload_acme process_acme_doc[of 100 Map.empty] show ?thesis
    by simp
qed

end
